theory Spec2Isabelle
  imports Main "HOL-Library.AList" "HOL-Library.Sublist" "HOL-Library.Char_ord"
    "HOL-Library.List_Lexorder"
begin

section \<open>Python values and errors\<close>

text \<open>
  The exceptions of the modelled code. A function that can raise returns
  \<open>py_error + 'a\<close>, with \<open>Inl\<close> for the exception.
\<close>

datatype py_error =
    OSError
  | UnicodeDecodeError
  | TypeError
  | AttributeError
  | NoAvailableSlotsError
  | SlotNotFoundError
  | DockerError
  | ImageBuildError
  | AiboxError
  | ConfigError

text \<open>
  What \<open>yaml.safe_load\<close> returns on a slot record: a scalar, a sequence or a mapping.
  Mapping keys are strings and mapping values are scalars (the records of this program
  hold strings; \<open>VNull\<close> is Python's \<open>None\<close>).
\<close>

datatype yvalue = VNull | VBool bool | VInt int | VStr string

datatype ydoc = DScalar yvalue | DList "yvalue list" | DMap "(string \<times> yvalue) list"

text \<open>Python truthiness (\<open>if x\<close>, \<open>x if x else None\<close>).\<close>

fun truthy_value :: "yvalue \<Rightarrow> bool" where
  "truthy_value VNull = False"
| "truthy_value (VBool b) = b"
| "truthy_value (VInt i) = (i \<noteq> 0)"
| "truthy_value (VStr s) = (s \<noteq> [])"

fun truthy :: "ydoc \<Rightarrow> bool" where
  "truthy (DScalar v) = truthy_value v"
| "truthy (DList vs) = (vs \<noteq> [])"
| "truthy (DMap kvs) = (kvs \<noteq> [])"

text \<open>\<open>str(n)\<close> for a Python int, as used by the f-string \<open>f"slot-{slot_num}"\<close>.\<close>

definition digit_char :: "nat \<Rightarrow> char" where
  "digit_char d = char_of (48 + d)"

fun nat_str :: "nat \<Rightarrow> string" where
  "nat_str n = (if n < 10 then [digit_char n] else nat_str (n div 10) @ [digit_char (n mod 10)])"

declare nat_str.simps [simp del]

definition int_str :: "int \<Rightarrow> string" where
  "int_str i = (if i < 0 then CHR ''-'' # nat_str (nat (- i)) else nat_str (nat i))"

section \<open>The file system under the project's \<open>slots\<close> directory\<close>

text \<open>
  The state of \<open>~/.aibox/projects/<storage>/slots\<close>: an association list from paths
  (lists of entry names, relative to the \<open>slots\<close> directory; \<open>[]\<close> is the directory
  itself) to what is there. A regular file is represented by what reading it as a YAML
  document does: \<open>Raw\<close> is not valid text (\<open>read_text\<close> raises
  \<open>UnicodeDecodeError\<close>), \<open>BadYaml\<close> is text on which \<open>yaml.safe_load\<close> raises
  \<open>YAMLError\<close>, \<open>Yaml d\<close> is text that loads as \<open>d\<close>; \<open>yaml.dump d\<close> writes text
  that loads as \<open>d\<close> again.
\<close>

datatype content = Raw | BadYaml | Yaml ydoc

datatype entry = DirE | FileE content

type_synonym path = "string list"

type_synonym fs = "(path \<times> entry) list"

definition lookup :: "fs \<Rightarrow> path \<Rightarrow> entry option" where
  "lookup fs p = map_of fs p"

definition path_exists :: "fs \<Rightarrow> path \<Rightarrow> bool" where
  "path_exists fs p = (lookup fs p \<noteq> None)"

definition is_dir :: "fs \<Rightarrow> path \<Rightarrow> bool" where
  "is_dir fs p = (lookup fs p = Some DirE)"

definition is_file :: "fs \<Rightarrow> path \<Rightarrow> bool" where
  "is_file fs p = (case lookup fs p of Some (FileE c) \<Rightarrow> True | _ \<Rightarrow> False)"

text \<open>
  \<open>Path.mkdir(parents=True, exist_ok=True)\<close>: every missing directory on the way is
  created; a regular file on the way (or at the path itself) raises an \<open>OSError\<close>.
\<close>

fun mkdir_each :: "fs \<Rightarrow> path list \<Rightarrow> py_error + fs" where
  "mkdir_each fs [] = Inr fs"
| "mkdir_each fs (p # ps) =
     (case lookup fs p of
        Some (FileE c) \<Rightarrow> Inl OSError
      | Some DirE \<Rightarrow> mkdir_each fs ps
      | None \<Rightarrow> mkdir_each (AList.update p DirE fs) ps)"

definition mkdir_p :: "fs \<Rightarrow> path \<Rightarrow> py_error + fs" where
  "mkdir_p fs p = mkdir_each fs (prefixes p)"

text \<open>
  \<open>Path.write_text\<close>: the parent must be a directory and the path itself must not be
  one; the file is created or overwritten.
\<close>

definition write_text :: "fs \<Rightarrow> path \<Rightarrow> content \<Rightarrow> py_error + fs" where
  "write_text fs p c =
     (if p = [] \<or> \<not> is_dir fs (butlast p) \<or> is_dir fs p then Inl OSError
      else Inr (AList.update p (FileE c) fs))"

section \<open>SlotConfig\<close>

definition slot_dir :: "int \<Rightarrow> path" where
  "slot_dir slot_num = [''slot-'' @ int_str slot_num]"

definition config_path :: "int \<Rightarrow> path" where
  "config_path slot_num = slot_dir slot_num @ [''metadata.yml'']"

definition exists_slot :: "fs \<Rightarrow> int \<Rightarrow> bool" where
  "exists_slot fs slot_num = path_exists fs (config_path slot_num)"

text \<open>
  \<open>SlotConfig.save\<close>. \<open>now1\<close> and \<open>now2\<close> are the two readings of
  \<open>datetime.now(UTC).isoformat()\<close>.
\<close>

definition save_data :: "string \<Rightarrow> string \<Rightarrow> string \<Rightarrow> string \<Rightarrow> (string \<times> yvalue) list" where
  "save_data ai_provider container_name now1 now2 =
     [(''ai_provider'', VStr ai_provider),
      (''container_name'', VStr container_name),
      (''created_at'', VStr now1),
      (''last_used'', VStr now2)]"

definition save :: "fs \<Rightarrow> int \<Rightarrow> string \<Rightarrow> string \<Rightarrow> string \<Rightarrow> string \<Rightarrow> py_error + fs" where
  "save fs slot_num ai_provider container_name now1 now2 =
     (case mkdir_p fs (slot_dir slot_num) of
        Inl e \<Rightarrow> Inl e
      | Inr fs1 \<Rightarrow>
          write_text fs1 (config_path slot_num)
            (Yaml (DMap (save_data ai_provider container_name now1 now2))))"

text \<open>
  \<open>SlotConfig.load\<close>: \<open>None\<close> when the file is missing, when reading it raises an
  \<open>OSError\<close> (it is a directory), when the YAML is invalid, or when the document is
  falsy. A \<open>UnicodeDecodeError\<close> of \<open>read_text\<close> is not caught.
\<close>

definition load :: "fs \<Rightarrow> int \<Rightarrow> py_error + ydoc option" where
  "load fs slot_num =
     (if \<not> path_exists fs (config_path slot_num) then Inr None
      else case lookup fs (config_path slot_num) of
             Some (FileE Raw) \<Rightarrow> Inl UnicodeDecodeError
           | Some (FileE BadYaml) \<Rightarrow> Inr None
           | Some (FileE (Yaml d)) \<Rightarrow> Inr (if truthy d then Some d else None)
           | _ \<Rightarrow> Inr None)"

text \<open>\<open>dict.get(key)\<close>: the value, or \<open>None\<close> when the key is missing.\<close>

definition dict_get :: "(string \<times> yvalue) list \<Rightarrow> string \<Rightarrow> yvalue" where
  "dict_get d k = (case map_of d k of Some v \<Rightarrow> v | None \<Rightarrow> VNull)"

text \<open>
  \<open>config.get(key) if config else None\<close>, the body of \<open>get_ai_provider\<close> and
  \<open>get_container_name\<close>: a truthy document that is not a mapping has no \<open>get\<close>.
\<close>

definition get_field :: "fs \<Rightarrow> int \<Rightarrow> string \<Rightarrow> py_error + yvalue" where
  "get_field fs slot_num k =
     (case load fs slot_num of
        Inl e \<Rightarrow> Inl e
      | Inr None \<Rightarrow> Inr VNull
      | Inr (Some (DMap d)) \<Rightarrow> Inr (dict_get d k)
      | Inr (Some _) \<Rightarrow> Inl AttributeError)"

definition get_ai_provider :: "fs \<Rightarrow> int \<Rightarrow> py_error + yvalue" where
  "get_ai_provider fs slot_num = get_field fs slot_num ''ai_provider''"

definition get_container_name :: "fs \<Rightarrow> int \<Rightarrow> py_error + yvalue" where
  "get_container_name fs slot_num = get_field fs slot_num ''container_name''"

section \<open>SlotManager\<close>

text \<open>
  \<open>find_available_slot\<close>: the first \<open>i\<close> of \<open>range(start, max_slots + 1)\<close> whose
  \<open>SlotConfig(i).exists()\<close> is false.
\<close>

definition find_available_slot :: "fs \<Rightarrow> int \<Rightarrow> int \<Rightarrow> py_error + int" where
  "find_available_slot fs max_slots start =
     (case List.find (\<lambda>i. \<not> exists_slot fs i) [start..max_slots] of
        Some i \<Rightarrow> Inr i
      | None \<Rightarrow> Inl NoAvailableSlotsError)"


text \<open>
  \<open>str.split(sep)\<close> for a one-character separator, and \<open>int(s)\<close> on ASCII text:
  surrounding whitespace is stripped, a sign is allowed, and the digits may be grouped by
  single underscores; anything else raises \<open>ValueError\<close> (\<open>None\<close> here).
\<close>

fun split_on :: "char \<Rightarrow> string \<Rightarrow> string list" where
  "split_on sep [] = [[]]"
| "split_on sep (c # cs) =
     (if c = sep then [] # split_on sep cs
      else (case split_on sep cs of
              [] \<Rightarrow> [[c]]
            | w # ws \<Rightarrow> (c # w) # ws))"

definition is_space :: "char \<Rightarrow> bool" where
  "is_space c = (let n = (of_char c :: nat) in (9 \<le> n \<and> n \<le> 13) \<or> (28 \<le> n \<and> n \<le> 32))"

definition is_digit :: "char \<Rightarrow> bool" where
  "is_digit c = (let n = (of_char c :: nat) in 48 \<le> n \<and> n \<le> 57)"

definition digit_val :: "char \<Rightarrow> nat" where
  "digit_val c = of_char c - 48"

definition strip :: "string \<Rightarrow> string" where
  "strip s = rev (dropWhile is_space (rev (dropWhile is_space s)))"

fun parse_digits :: "string \<Rightarrow> nat \<Rightarrow> bool \<Rightarrow> nat option" where
  "parse_digits [] acc prev_digit = (if prev_digit then Some acc else None)"
| "parse_digits (c # cs) acc prev_digit =
     (if is_digit c then parse_digits cs (10 * acc + digit_val c) True
      else if c = CHR ''_'' \<and> prev_digit then parse_digits cs acc False
      else None)"

definition py_int :: "string \<Rightarrow> int option" where
  "py_int s =
     (case strip s of
        [] \<Rightarrow> None
      | c # cs \<Rightarrow>
          if c = CHR ''-'' then map_option (\<lambda>n. - int n) (parse_digits cs 0 False)
          else if c = CHR ''+'' then map_option int (parse_digits cs 0 False)
          else map_option int (parse_digits (c # cs) 0 False))"

text \<open>
  \<open>Path.glob("slot-*")\<close> on a directory: the names of its entries that start with
  \<open>slot-\<close>; nothing when the path is not a directory. \<open>sorted\<close> orders the paths of one
  directory by their names, character by character.
\<close>

definition children :: "fs \<Rightarrow> path \<Rightarrow> string list" where
  "children fs d = [last p. (p, e) \<leftarrow> fs, p \<noteq> [], butlast p = d]"

definition glob_slot :: "fs \<Rightarrow> string list" where
  "glob_slot fs = (if is_dir fs [] then filter (\<lambda>name. take 5 name = ''slot-'') (children fs []) else [])"

text \<open>
  An element of the list \<open>list_slots\<close> returns: the dict
  \<open>{"slot": slot_num, **config}\<close>. The keys of \<open>config\<close> are stored after \<open>slot\<close>, and a
  key \<open>slot\<close> of \<open>config\<close> itself replaces the number.
\<close>

type_synonym slot_entry = "(string \<times> yvalue) list"

definition slot_entry_of :: "int \<Rightarrow> (string \<times> yvalue) list \<Rightarrow> slot_entry" where
  "slot_entry_of slot_num config = AList.updates (map fst config) (map snd config) [(''slot'', VInt slot_num)]"

text \<open>
  The loop of \<open>list_slots\<close>. \<open>ValueError\<close> (of \<open>int\<close>, or the \<open>UnicodeDecodeError\<close> of
  \<open>load\<close>, which is one) and \<open>IndexError\<close> skip the directory; the \<open>TypeError\<close> of
  \<open>**config\<close> on a document that is not a mapping is not caught.
\<close>

fun list_slots_loop :: "fs \<Rightarrow> string list \<Rightarrow> slot_entry list \<Rightarrow> py_error + slot_entry list" where
  "list_slots_loop fs [] slots = Inr slots"
| "list_slots_loop fs (name # names) slots =
     (if \<not> is_dir fs [name] then list_slots_loop fs names slots
      else case split_on CHR ''-'' name of
        a # b # rest \<Rightarrow>
          (case py_int b of
             None \<Rightarrow> list_slots_loop fs names slots
           | Some slot_num \<Rightarrow>
               (case load fs slot_num of
                  Inl UnicodeDecodeError \<Rightarrow> list_slots_loop fs names slots
                | Inl e \<Rightarrow> Inl e
                | Inr None \<Rightarrow> list_slots_loop fs names slots
                | Inr (Some (DMap config)) \<Rightarrow>
                    list_slots_loop fs names (slots @ [slot_entry_of slot_num config])
                | Inr (Some d) \<Rightarrow> Inl TypeError))
      | short \<Rightarrow> list_slots_loop fs names slots)"

definition list_slots :: "fs \<Rightarrow> py_error + slot_entry list" where
  "list_slots fs =
     (if \<not> path_exists fs [] then Inr []
      else list_slots_loop fs (sort (glob_slot fs)) [])"

text \<open>The slot numbers of a listing, in the order of the listing.\<close>

definition slot_numbers :: "slot_entry list \<Rightarrow> yvalue list" where
  "slot_numbers slots = map (\<lambda>s. dict_get s ''slot'') slots"

text \<open>
  \<open>sorted(slots, key=lambda s: s["slot"])\<close>. Python's sort is stable. Numbers compare
  with numbers (\<open>bool\<close> is a number) and strings with strings; any other comparison
  raises \<open>TypeError\<close>, and sorting two or more elements compares each with another.
\<close>

fun is_num :: "yvalue \<Rightarrow> bool" where
  "is_num (VInt i) = True"
| "is_num (VBool b) = True"
| "is_num v = False"

fun num_of :: "yvalue \<Rightarrow> int" where
  "num_of (VInt i) = i"
| "num_of (VBool b) = (if b then 1 else 0)"
| "num_of v = 0"

fun is_str :: "yvalue \<Rightarrow> bool" where
  "is_str (VStr s) = True"
| "is_str v = False"

fun str_of :: "yvalue \<Rightarrow> string" where
  "str_of (VStr s) = s"
| "str_of v = []"

definition py_sorted_slots :: "slot_entry list \<Rightarrow> py_error + slot_entry list" where
  "py_sorted_slots slots =
     (if length slots \<le> 1 then Inr slots
      else if list_all is_num (slot_numbers slots)
        then Inr (sort_key (\<lambda>s. num_of (dict_get s ''slot'')) slots)
      else if list_all is_str (slot_numbers slots)
        then Inr (sort_key (\<lambda>s. str_of (dict_get s ''slot'')) slots)
      else Inl TypeError)"

text \<open>\<open>old_slot_num == new_slot_num\<close> and \<open>f"slot-{old_slot_num}"\<close> for the value under \<open>slot\<close>.\<close>

definition py_eq_int :: "yvalue \<Rightarrow> int \<Rightarrow> bool" where
  "py_eq_int v n = (is_num v \<and> num_of v = n)"

fun py_str :: "yvalue \<Rightarrow> string" where
  "py_str (VInt i) = int_str i"
| "py_str (VStr s) = s"
| "py_str (VBool b) = (if b then ''True'' else ''False'')"
| "py_str VNull = ''None''"

definition slot_dir_of :: "yvalue \<Rightarrow> path" where
  "slot_dir_of v = [''slot-'' @ py_str v]"

text \<open>
  \<open>shutil.move(src, dst)\<close> for an existing \<open>src\<close>. When \<open>dst\<close> is an existing
  directory, \<open>src\<close> is moved inside it, under its own name (an error if that name is
  taken there); otherwise \<open>src\<close> is renamed to \<open>dst\<close>, which fails when a directory
  would replace a regular file.
\<close>

definition rename_tree :: "fs \<Rightarrow> path \<Rightarrow> path \<Rightarrow> fs" where
  "rename_tree fs src dst =
     map (\<lambda>(q, e). (if prefix src q then dst @ drop (length src) q else q, e)) fs"

definition remove_tree :: "fs \<Rightarrow> path \<Rightarrow> fs" where
  "remove_tree fs p = filter (\<lambda>(q, e). \<not> prefix p q) fs"

definition shutil_move :: "fs \<Rightarrow> path \<Rightarrow> path \<Rightarrow> py_error + fs" where
  "shutil_move fs src dst =
     (if is_dir fs dst then
        (if src = dst then Inr fs
         else if path_exists fs (dst @ [last src]) \<or> prefix src dst then Inl OSError
         else Inr (rename_tree fs src (dst @ [last src])))
      else if path_exists fs dst then
        (if is_dir fs src then Inl OSError
         else Inr (rename_tree (remove_tree fs dst) src dst))
      else if prefix src dst then Inl OSError
      else Inr (rename_tree fs src dst))"

text \<open>The loop of \<open>renumber_slots\<close> over \<open>enumerate(sorted_slots, start=1)\<close>.\<close>

fun renumber_loop :: "fs \<Rightarrow> (int \<times> slot_entry) list \<Rightarrow> py_error + fs" where
  "renumber_loop fs [] = Inr fs"
| "renumber_loop fs ((new_slot_num, slot_data) # rest) =
     (let old_slot_num = dict_get slot_data ''slot'' in
      if py_eq_int old_slot_num new_slot_num then renumber_loop fs rest
      else if \<not> path_exists fs (slot_dir_of old_slot_num) then renumber_loop fs rest
      else case shutil_move fs (slot_dir_of old_slot_num) (slot_dir new_slot_num) of
        Inl e \<Rightarrow> Inl e
      | Inr fs1 \<Rightarrow>
          (case load fs1 new_slot_num of
             Inl e \<Rightarrow> Inl e
           | Inr None \<Rightarrow> renumber_loop fs1 rest
           | Inr (Some (DMap slot_config_data)) \<Rightarrow>
               (case write_text fs1 (config_path new_slot_num)
                       (Yaml (DMap
                          (AList.update ''last_used'' (dict_get slot_data ''last_used'')
                            (AList.update ''created_at'' (dict_get slot_data ''created_at'')
                               slot_config_data)))) of
                  Inl e \<Rightarrow> Inl e
                | Inr fs2 \<Rightarrow> renumber_loop fs2 rest)
           | Inr (Some d) \<Rightarrow> Inl TypeError))"

definition renumber_slots :: "fs \<Rightarrow> py_error + fs" where
  "renumber_slots fs =
     (case list_slots fs of
        Inl e \<Rightarrow> Inl e
      | Inr slots \<Rightarrow>
          if slots = [] then Inr fs
          else (case py_sorted_slots slots of
                  Inl e \<Rightarrow> Inl e
                | Inr sorted_slots \<Rightarrow>
                    renumber_loop fs (zip [1..int (length sorted_slots)] sorted_slots)))"


section \<open>VolumeManager\<close>

text \<open>
  A provider as \<open>prepare_volumes\<close> sees it: its \<open>name\<close> and the result of
  \<open>get_mount_paths()\<close>. A mount path is relative to the home directory (as the
  docstring of \<open>get_mount_paths\<close> says) and is given by its list of entry names.
\<close>

record provider =
  pname :: string
  mount_paths :: "path list"

text \<open>
  A custom mount of the project configuration: \<open>source\<close> is
  \<open>str(Path(mount.source).expanduser().resolve())\<close> and \<open>source_exists\<close> tells
  whether that path exists on the host.
\<close>

record mount_config =
  source :: string
  source_exists :: bool
  target :: string
  mode :: string

text \<open>
  What the operating system answers about permissions: \<open>os.access(p, W_OK)\<close>,
  \<open>os.access(p, R_OK | W_OK)\<close>, and whether \<open>chmod\<close> on \<open>p\<close> succeeds.
\<close>

record os_perms =
  can_write :: "path \<Rightarrow> bool"
  can_read_write :: "path \<Rightarrow> bool"
  chmod_ok :: "path \<Rightarrow> bool"

text \<open>The volumes dict: host path to \<open>(bind, mode)\<close>.\<close>

type_synonym volumes = "(string \<times> string \<times> string) list"

text \<open>
  \<open>str(path)\<close> of a path below the \<open>slots\<close> directory, whose own \<open>str\<close> is
  \<open>slots_root\<close>; and \<open>f"/home/aibox/{path_name}"\<close>.
\<close>

definition rel_str :: "path \<Rightarrow> string" where
  "rel_str p = concat (map (\<lambda>c. CHR ''/'' # c) p)"

definition host_str :: "string \<Rightarrow> path \<Rightarrow> string" where
  "host_str slots_root p = slots_root @ rel_str p"

definition container_path :: "path \<Rightarrow> string" where
  "container_path path_name = ''/home/aibox/'' @ tl (rel_str path_name)"

text \<open>
  \<open>PurePath.suffix\<close>: the part of the last name from its last dot on, when that dot is
  neither the first nor the last character of the name.
\<close>

definition name_suffix :: "string \<Rightarrow> string" where
  "name_suffix name =
     (let after = length (takeWhile (\<lambda>c. c \<noteq> CHR ''.'') (rev name)) in
      if CHR ''.'' \<in> set name \<and> 0 < after \<and> after + 1 < length name
      then drop (length name - after - 1) name
      else [])"

definition path_suffix :: "path \<Rightarrow> string" where
  "path_suffix p = (if p = [] then [] else name_suffix (last p))"

text \<open>One turn of the loop over \<open>provider.get_mount_paths()\<close>.\<close>

definition mount_provider_path ::
    "os_perms \<Rightarrow> string \<Rightarrow> int \<Rightarrow> path \<Rightarrow> fs \<times> volumes \<Rightarrow> py_error + fs \<times> volumes" where
  "mount_provider_path perm slots_root slot_number path_name st =
     (let fs = fst st; vols = snd st;
          host_path = slot_dir slot_number @ path_name
      in
      if \<not> path_exists fs host_path \<and> path_suffix host_path \<noteq> [] then Inr (fs, vols)
      else
        case (if \<not> path_exists fs host_path then mkdir_p fs host_path else Inr fs) of
          Inl e \<Rightarrow> Inl e
        | Inr fs1 \<Rightarrow>
            if \<not> path_exists fs1 host_path then Inr (fs1, vols)
            else if is_dir fs1 host_path \<and> \<not> can_write perm host_path
                    \<and> \<not> chmod_ok perm host_path then Inr (fs1, vols)
            else if \<not> is_dir fs1 host_path \<and> is_file fs1 host_path
                    \<and> \<not> can_read_write perm host_path \<and> \<not> chmod_ok perm host_path
              then Inr (fs1, vols)
            else Inr (fs1, AList.update (host_str slots_root host_path)
                              (container_path path_name, ''rw'') vols))"

fun mount_provider_paths ::
    "os_perms \<Rightarrow> string \<Rightarrow> int \<Rightarrow> path list \<Rightarrow> fs \<times> volumes \<Rightarrow> py_error + fs \<times> volumes" where
  "mount_provider_paths perm slots_root slot_number [] st = Inr st"
| "mount_provider_paths perm slots_root slot_number (path_name # rest) st =
     (case mount_provider_path perm slots_root slot_number path_name st of
        Inl e \<Rightarrow> Inl e
      | Inr st1 \<Rightarrow> mount_provider_paths perm slots_root slot_number rest st1)"

definition mount_custom :: "mount_config \<Rightarrow> volumes \<Rightarrow> volumes" where
  "mount_custom m vols =
     (if mode m = ''ro'' \<and> \<not> source_exists m then vols
      else AList.update (source m) (target m, mode m) vols)"

definition claude_json :: "int \<Rightarrow> path" where
  "claude_json slot_number = slot_dir slot_number @ [''.claude'', ''.claude.json'']"

text \<open>
  \<open>prepare_volumes\<close>: the project directory, the slot directory, the provider paths,
  Claude's \<open>.claude.json\<close>, then the custom mounts. It returns the volumes and leaves the
  file system with the directories it created.
\<close>

definition prepare_volumes ::
    "os_perms \<Rightarrow> string \<Rightarrow> string \<Rightarrow> int \<Rightarrow> provider \<Rightarrow> mount_config list option \<Rightarrow> fs
      \<Rightarrow> py_error + volumes \<times> fs" where
  "prepare_volumes perm project_dir slots_root slot_number prov custom_mounts fs =
     (case mkdir_p fs (slot_dir slot_number) of
        Inl e \<Rightarrow> Inl e
      | Inr fs0 \<Rightarrow>
          (case mount_provider_paths perm slots_root slot_number (mount_paths prov)
                  (fs0, [(project_dir, (''/workspace'', ''rw''))]) of
             Inl e \<Rightarrow> Inl e
           | Inr st \<Rightarrow>
               (let fs1 = fst st; vols1 = snd st;
                    vols2 = (if pname prov = ''claude'' \<and> path_exists fs1 (claude_json slot_number)
                             then AList.update (host_str slots_root (claude_json slot_number))
                                    (''/home/aibox/.claude.json'', ''rw'') vols1
                             else vols1);
                    vols3 = (case custom_mounts of
                               None \<Rightarrow> vols2
                             | Some ms \<Rightarrow> fold mount_custom ms vols2)
                in Inr (vols3, fs1))))"

definition ClaudeProvider :: provider where
  "ClaudeProvider = \<lparr>pname = ''claude'', mount_paths = [[''.claude'']]\<rparr>"

definition GeminiProvider :: provider where
  "GeminiProvider = \<lparr>pname = ''gemini'', mount_paths = [[''.gemini'']]\<rparr>"

definition OpenAIProvider :: provider where
  "OpenAIProvider = \<lparr>pname = ''openai'', mount_paths = [[''.codex'']]\<rparr>"

text \<open>Permissions of a user who owns everything below the slots directory.\<close>

definition owner_perms :: os_perms where
  "owner_perms = \<lparr>can_write = (\<lambda>p. True), can_read_write = (\<lambda>p. True), chmod_ok = (\<lambda>p. True)\<rparr>"

section \<open>Example stores\<close>

definition record_of :: "string \<Rightarrow> string \<Rightarrow> string \<Rightarrow> string \<Rightarrow> entry" where
  "record_of p c t1 t2 = FileE (Yaml (DMap (save_data p c t1 t2)))"

text \<open>Slots 1 and 2, both with a record.\<close>

definition store_12 :: fs where
  "store_12 =
     [([], DirE),
      ([''slot-1''], DirE),
      ([''slot-1'', ''metadata.yml''], record_of ''claude'' ''aibox-demo-1'' ''2025-01-01T10:00:00+00:00'' ''2025-01-01T10:00:00+00:00''),
      ([''slot-2''], DirE),
      ([''slot-2'', ''metadata.yml''], record_of ''gemini'' ''aibox-demo-2'' ''2025-01-02T10:00:00+00:00'' ''2025-01-02T10:00:00+00:00'')]"



text \<open>Slots 2 and 10, both with a record.\<close>

definition store_2_10 :: fs where
  "store_2_10 =
     [([], DirE),
      ([''slot-2''], DirE),
      ([''slot-2'', ''metadata.yml''], record_of ''claude'' ''aibox-demo-2'' ''2025-01-01T10:00:00+00:00'' ''2025-01-01T10:00:00+00:00''),
      ([''slot-10''], DirE),
      ([''slot-10'', ''metadata.yml''], record_of ''gemini'' ''aibox-demo-10'' ''2025-01-02T10:00:00+00:00'' ''2025-01-02T10:00:00+00:00'')]"

text \<open>Slot 1 whose record file holds the YAML scalar \<open>pending\<close>, and slot 2 with a record.\<close>

definition store_scalar :: fs where
  "store_scalar =
     [([], DirE),
      ([''slot-1''], DirE),
      ([''slot-1'', ''metadata.yml''], FileE (Yaml (DScalar (VStr ''pending'')))),
      ([''slot-2''], DirE),
      ([''slot-2'', ''metadata.yml''], record_of ''gemini'' ''aibox-demo-2'' ''2025-01-02T10:00:00+00:00'' ''2025-01-02T10:00:00+00:00'')]"

text \<open>
  A directory \<open>slot-1\<close> without a record (left by a start that prepared the slot's
  volumes and then failed), and slot 2 with a record.
\<close>

definition store_stale :: fs where
  "store_stale =
     [([], DirE),
      ([''slot-1''], DirE),
      ([''slot-1'', ''.claude''], DirE),
      ([''slot-2''], DirE),
      ([''slot-2'', ''metadata.yml''], record_of ''gemini'' ''aibox-demo-2'' ''2025-01-02T10:00:00+00:00'' ''2025-01-02T10:00:00+00:00''),
      ([''slot-2'', ''.gemini''], DirE)]"

text \<open>Slots 1, 3 and 5, each with a record and a provider directory.\<close>

definition store_135 :: fs where
  "store_135 =
     [([], DirE),
      ([''slot-1''], DirE),
      ([''slot-1'', ''metadata.yml''], record_of ''claude'' ''aibox-demo-1'' ''2025-01-01T10:00:00+00:00'' ''2025-01-01T11:00:00+00:00''),
      ([''slot-1'', ''.claude''], DirE),
      ([''slot-3''], DirE),
      ([''slot-3'', ''metadata.yml''], record_of ''gemini'' ''aibox-demo-3'' ''2025-01-03T10:00:00+00:00'' ''2025-01-03T11:00:00+00:00''),
      ([''slot-3'', ''.gemini''], DirE),
      ([''slot-5''], DirE),
      ([''slot-5'', ''metadata.yml''], record_of ''openai'' ''aibox-demo-5'' ''2025-01-05T10:00:00+00:00'' ''2025-01-05T11:00:00+00:00''),
      ([''slot-5'', ''.codex''], DirE)]"

text \<open>\<open>store_stale\<close> after \<open>renumber_slots\<close>: slot 2 now lies inside \<open>slot-1\<close>.\<close>

definition store_stale_renumbered :: fs where
  "store_stale_renumbered =
     [([], DirE),
      ([''slot-1''], DirE),
      ([''slot-1'', ''.claude''], DirE),
      ([''slot-1'', ''slot-2''], DirE),
      ([''slot-1'', ''slot-2'', ''metadata.yml''], record_of ''gemini'' ''aibox-demo-2'' ''2025-01-02T10:00:00+00:00'' ''2025-01-02T10:00:00+00:00''),
      ([''slot-1'', ''slot-2'', ''.gemini''], DirE)]"

(*THEOREMS*)

section \<open>Facts about the file system model\<close>

lemma lookup_update:
  "lookup (AList.update k v fs) p = (if p = k then Some v else lookup fs p)"
  by (simp add: lookup_def update_conv')


lemma write_text_lookup:
  "write_text fs p c = Inr fs' \<Longrightarrow>
   lookup fs' q = (if q = p then Some (FileE c) else lookup fs q)"
  by (auto simp: write_text_def lookup_update split: if_splits)

lemma save_lookup:
  assumes "save fs n p c t1 t2 = Inr fs'"
  shows "lookup fs' (config_path n) = Some (FileE (Yaml (DMap (save_data p c t1 t2))))"
  using assms by (auto simp: save_def write_text_lookup split: sum.splits)


lemma find_upto_None:
  "find P [a..b] = None \<longleftrightarrow> (\<forall>j. a \<le> j \<and> j \<le> b \<longrightarrow> \<not> P j)"
  by (auto simp: find_None_iff)

lemma find_upto_Some:
  "find P [a..b] = Some i \<longleftrightarrow>
   a \<le> i \<and> i \<le> b \<and> P i \<and> (\<forall>j. a \<le> j \<and> j < i \<longrightarrow> \<not> P j)"
proof (induction a b rule: upto.induct)
  case (1 a b)
  show ?case
  proof (cases "a \<le> b")
    case False
    then show ?thesis by auto
  next
    case True
    then have eq: "[a..b] = a # [a + 1..b]" by (simp add: upto_rec1)
    show ?thesis
    proof (cases "P a")
      case True
      then show ?thesis using \<open>a \<le> b\<close> by (auto simp: eq)
    next
      case False
      have "(\<forall>j. a \<le> j \<and> j < i \<longrightarrow> \<not> P j) \<longleftrightarrow> (\<forall>j. a + 1 \<le> j \<and> j < i \<longrightarrow> \<not> P j)" for i
        using False by (metis add1_zle_eq order_le_less)
      moreover have "a \<le> i \<and> P i \<longleftrightarrow> a + 1 \<le> i \<and> P i"
        using False by (cases "i = a") auto
      moreover have "find P [a..b] = find P [a + 1..b]"
        using False by (simp add: eq)
      ultimately show ?thesis using 1 [OF \<open>a \<le> b\<close>] by auto
    qed
  qed
qed

section \<open>Slot allocation\<close>

text \<open>
  C5. \<open>find_available_slot\<close> (with the default \<open>start = 1\<close>) returns \<open>i\<close> exactly when
  \<open>i\<close> is the least number of \<open>1..max_slots\<close> whose record file does not exist, so the
  number returned is never one present in the store; it raises
  \<open>NoAvailableSlotsError\<close>, and nothing else, exactly when every number of
  \<open>1..max_slots\<close> is occupied.
\<close>

theorem find_available_slot_first_free:
  "(find_available_slot fs max_slots 1 = Inr i \<longleftrightarrow>
      1 \<le> i \<and> i \<le> max_slots \<and> \<not> exists_slot fs i \<and>
      (\<forall>j. 1 \<le> j \<and> j < i \<longrightarrow> exists_slot fs j)) \<and>
   (find_available_slot fs max_slots 1 = Inl e \<longleftrightarrow>
      e = NoAvailableSlotsError \<and> (\<forall>j. 1 \<le> j \<and> j \<le> max_slots \<longrightarrow> exists_slot fs j))"
proof -
  let ?P = "\<lambda>i. \<not> exists_slot fs i"
  show ?thesis
  proof (cases "find ?P [1..max_slots]")
    case None
    then show ?thesis
      using find_upto_None [of ?P 1 max_slots] by (auto simp: find_available_slot_def)
  next
    case (Some k)
    then show ?thesis
      using find_upto_Some [of ?P 1 max_slots k] find_upto_Some [of ?P 1 max_slots i]
      by (auto simp: find_available_slot_def)
  qed
qed

theorem find_available_slot_first_free_witness:
  "find_available_slot store_12 10 1 = Inr 3 \<and> \<not> exists_slot store_12 3 \<and>
   exists_slot store_12 1 \<and> exists_slot store_12 2 \<and>
   find_available_slot store_12 2 1 = Inl NoAvailableSlotsError"
proof -
  have a: "find_available_slot store_12 10 1 = Inr 3" by code_simp
  have b: "find_available_slot store_12 2 1 = Inl NoAvailableSlotsError" by code_simp
  from a find_available_slot_first_free [of store_12 10 3 NoAvailableSlotsError]
  have "\<not> exists_slot store_12 3 \<and> exists_slot store_12 1 \<and> exists_slot store_12 2"
    by simp
  with a b show ?thesis by simp
qed

section \<open>Slot records\<close>

text \<open>
  C10. Save/load round trip: after \<open>SlotConfig.save(p, c)\<close> succeeds, \<open>exists()\<close> is true
  and \<open>load()\<close> returns a record whose \<open>ai_provider\<close> is \<open>p\<close> and whose
  \<open>container_name\<close> is \<open>c\<close>.
\<close>

theorem save_load_roundtrip:
  assumes "save fs n p c now1 now2 = Inr fs'"
  shows "exists_slot fs' n \<and>
         (\<exists>d. load fs' n = Inr (Some (DMap d)) \<and>
              dict_get d ''ai_provider'' = VStr p \<and>
              dict_get d ''container_name'' = VStr c)"
  using save_lookup [OF assms]
  by (simp add: exists_slot_def path_exists_def load_def save_data_def dict_get_def)

theorem save_load_roundtrip_witness:
  "save [] 3 ''openai'' ''aibox-demo-3'' ''2025-03-01T09:00:00+00:00'' ''2025-03-01T09:00:01+00:00''
     = Inr [([], DirE), ([''slot-3''], DirE),
            ([''slot-3'', ''metadata.yml''],
             record_of ''openai'' ''aibox-demo-3'' ''2025-03-01T09:00:00+00:00'' ''2025-03-01T09:00:01+00:00'')] \<and>
   exists_slot [([], DirE), ([''slot-3''], DirE),
            ([''slot-3'', ''metadata.yml''],
             record_of ''openai'' ''aibox-demo-3'' ''2025-03-01T09:00:00+00:00'' ''2025-03-01T09:00:01+00:00'')] 3"
proof -
  have a: "save [] 3 ''openai'' ''aibox-demo-3'' ''2025-03-01T09:00:00+00:00'' ''2025-03-01T09:00:01+00:00''
     = Inr [([], DirE), ([''slot-3''], DirE),
            ([''slot-3'', ''metadata.yml''],
             record_of ''openai'' ''aibox-demo-3'' ''2025-03-01T09:00:00+00:00'' ''2025-03-01T09:00:01+00:00'')]"
    by code_simp
  from save_load_roundtrip [OF a] a show ?thesis by simp
qed







section \<open>Listing and renumbering\<close>

text \<open>
  C6. \<open>list_slots\<close> visits the slot directories in the order of their names, so slot 10
  is listed before slot 2; and a record file that holds a YAML scalar instead of a mapping
  aborts the listing with a \<open>TypeError\<close> instead of being skipped.
\<close>

theorem list_slots_order_by_name:
  "list_slots store_2_10 =
     Inr [slot_entry_of 10 (save_data ''gemini'' ''aibox-demo-10''
            ''2025-01-02T10:00:00+00:00'' ''2025-01-02T10:00:00+00:00''),
          slot_entry_of 2 (save_data ''claude'' ''aibox-demo-2''
            ''2025-01-01T10:00:00+00:00'' ''2025-01-01T10:00:00+00:00'')] \<and>
   list_slots store_scalar = Inl TypeError"
  by code_simp

text \<open>
  C2. In \<open>store_stale\<close> the one slot record (slot 2) parses. \<open>renumber_slots\<close> moves
  \<open>slot-2\<close> to the path of slot 1, which is an existing directory, so the slot lands
  inside it: afterwards no slot is listed, instead of slot 1.
\<close>

theorem renumber_slots_into_stale_directory:
  "list_slots store_stale =
     Inr [slot_entry_of 2 (save_data ''gemini'' ''aibox-demo-2''
            ''2025-01-02T10:00:00+00:00'' ''2025-01-02T10:00:00+00:00'')] \<and>
   renumber_slots store_stale = Inr store_stale_renumbered \<and>
   list_slots store_stale_renumbered = Inr [] \<and>
   \<not> exists_slot store_stale_renumbered 1"
  by code_simp

end
